theory Spec2Isabelle
  imports Complex_Main "HOL-Library.Log_Nat"
begin

section \<open>Geometry linearizer (QGIS\_Linearize\_geometry.py)\<close>

text \<open>
  A shallow embedding of \<^verbatim>\<open>GeometryConverter\<close> and of the feature loop of
  \<^verbatim>\<open>GeometryLinearizer.processAlgorithm\<close>. Exceptions are values of \<open>error\<close>,
  returned as \<open>Inl\<close>; Python's \<^verbatim>\<open>None\<close> is \<open>None\<close> of an option type.
\<close>

subsection \<open>Exceptions\<close>

datatype error =
    TypeError
  | AttributeError
  | ZeroDivisionError
  | RuntimeError
  | QgsProcessingException

subsection \<open>Geometry values of the OGR binding\<close>

text \<open>
  A geometry carries the integer type code that \<^verbatim>\<open>GetGeometryType()\<close> returns, the
  name that \<^verbatim>\<open>GetGeometryName()\<close> returns, its own coordinates and its ordered
  children. The source tests code and name independently, so they are two fields.
\<close>

datatype geometry =
  Geometry (GetGeometryType: int) (GetGeometryName: string)
           (coordinates: "real list list") (subgeoms: "geometry list")

definition GetGeometryCount :: "geometry \<Rightarrow> nat" where
  "GetGeometryCount geom = length (subgeoms geom)"

definition GetGeometryRef :: "geometry \<Rightarrow> nat \<Rightarrow> geometry option" where
  "GetGeometryRef geom i =
     (if i < length (subgeoms geom) then Some (subgeoms geom ! i) else None)"

definition AddGeometry :: "geometry \<Rightarrow> geometry \<Rightarrow> geometry" where
  "AddGeometry geom sub =
     Geometry (GetGeometryType geom) (GetGeometryName geom) (coordinates geom)
              (subgeoms geom @ [sub])"

definition RemoveGeometry :: "geometry \<Rightarrow> nat \<Rightarrow> geometry" where
  "RemoveGeometry geom i =
     Geometry (GetGeometryType geom) (GetGeometryName geom) (coordinates geom)
              (take i (subgeoms geom) @ drop (Suc i) (subgeoms geom))"

text \<open>The type codes of \<^verbatim>\<open>osgeo.ogr\<close> that the source names.\<close>

definition wkbMultiLineString :: int where "wkbMultiLineString = 5"
definition wkbMultiPolygon :: int where "wkbMultiPolygon = 6"
definition wkbCircularString :: int where "wkbCircularString = 8"
definition wkbCompoundCurve :: int where "wkbCompoundCurve = 9"
definition wkbCurvePolygon :: int where "wkbCurvePolygon = 10"
definition wkbMultiCurve :: int where "wkbMultiCurve = 11"
definition wkbMultiSurface :: int where "wkbMultiSurface = 12"
definition wkbCurve :: int where "wkbCurve = 13"
definition wkbCircularStringZ :: int where "wkbCircularStringZ = 1008"
definition wkbCompoundCurveZ :: int where "wkbCompoundCurveZ = 1009"
definition wkbCurvePolygonZ :: int where "wkbCurvePolygonZ = 1010"
definition wkbMultiCurveZ :: int where "wkbMultiCurveZ = 1011"
definition wkbMultiSurfaceZ :: int where "wkbMultiSurfaceZ = 1012"
definition wkbCurveZ :: int where "wkbCurveZ = 1013"

text \<open>
  \<^verbatim>\<open>ogr.Geometry(type)\<close> for the two containers the source creates: an empty geometry
  of that type, with the name OGR gives the type.
\<close>

definition ogr_Geometry :: "int \<Rightarrow> geometry" where
  "ogr_Geometry t =
     Geometry t (if t = wkbMultiLineString then ''MULTILINESTRING''
                 else if t = wkbMultiPolygon then ''MULTIPOLYGON''
                 else ''UNKNOWN'') [] []"

text \<open>
  OGR's height flag of a type code: the ISO ranges \<open>1000..1999\<close> (Z) and \<open>3000..3999\<close>
  (ZM), which the source addresses by \<^verbatim>\<open>+ 1000\<close>, and the older 2.5D bit
  \<open>0x80000000\<close>, read as a signed or as an unsigned 32-bit value.
\<close>

definition wkbHasZ :: "int \<Rightarrow> bool" where
  "wkbHasZ t \<longleftrightarrow>
     (1000 \<le> t \<and> t < 2000) \<or> (3000 \<le> t \<and> t < 4000) \<or> t < 0 \<or> 2147483648 \<le> t"

definition Is3D :: "geometry \<Rightarrow> bool" where
  "Is3D geom = wkbHasZ (GetGeometryType geom)"

subsection \<open>Strings\<close>

text \<open>\<^verbatim>\<open>str.upper()\<close> on the ASCII names of OGR, and the \<^verbatim>\<open>in\<close> substring test.\<close>

definition upper_char :: "char \<Rightarrow> char" where
  "upper_char c =
     (case map_of (zip ''abcdefghijklmnopqrstuvwxyz'' ''ABCDEFGHIJKLMNOPQRSTUVWXYZ'') c of
        Some u \<Rightarrow> u
      | None \<Rightarrow> c)"

definition upper :: "string \<Rightarrow> string" where
  "upper s = map upper_char s"

fun contains :: "string \<Rightarrow> string \<Rightarrow> bool" where
  "contains sub [] = (sub = [])"
| "contains sub (c # cs) = (take (length sub) (c # cs) = sub \<or> contains sub cs)"

subsection \<open>The external geometry operations\<close>

text \<open>
  \<^verbatim>\<open>GetLinearGeometry()\<close> and \<^verbatim>\<open>segmentize(tolerance)\<close> belong to the geometry
  library. They are parameters of the model: each may raise, return \<^verbatim>\<open>None\<close> or
  return a geometry.
\<close>

record ogr =
  GetLinearGeometry :: "geometry \<Rightarrow> error + geometry option"
  segmentize :: "geometry \<Rightarrow> real \<Rightarrow> error + geometry option"

subsection \<open>Calls and their arguments\<close>

text \<open>
  \<^verbatim>\<open>linearize_geometry(geom, segmentize_tolerance)\<close> declares two required positional
  parameters and no default (line 170). A call site either supplies the second
  argument or omits it; Python binds the arguments before the body runs and raises
  \<^verbatim>\<open>TypeError\<close> when a required one is missing.
\<close>

datatype 'a arg = Supplied 'a | Omitted

subsection \<open>GeometryConverter\<close>

definition is_multicurve :: "geometry \<Rightarrow> bool" where
  "is_multicurve geom \<longleftrightarrow>
     GetGeometryType geom = wkbMultiCurve \<or>
     GetGeometryType geom = wkbMultiCurve + 1000 \<or>
     upper (GetGeometryName geom) = ''MULTICURVE''"

definition is_multisurface :: "geometry \<Rightarrow> bool" where
  "is_multisurface geom \<longleftrightarrow>
     GetGeometryType geom = wkbMultiSurface \<or>
     GetGeometryType geom = wkbMultiSurface + 1000 \<or>
     upper (GetGeometryName geom) = ''MULTISURFACE''"

definition curve_types :: "int list" where
  "curve_types =
     [wkbCircularString, wkbCompoundCurve, wkbCurvePolygon,
      wkbMultiCurve, wkbMultiSurface, wkbCurve, wkbCircularStringZ,
      wkbCompoundCurveZ, wkbCurvePolygonZ, wkbMultiCurveZ, wkbMultiSurfaceZ, wkbCurveZ]"

text \<open>The test of line 188.\<close>

definition is_curve :: "geometry \<Rightarrow> bool" where
  "is_curve geom \<longleftrightarrow>
     GetGeometryType geom \<in> set curve_types \<or>
     contains ''CURVE'' (upper (GetGeometryName geom))"

text \<open>Lines 173 to 176: the flattened value, or the geometry itself when the
  operation raises or returns \<^verbatim>\<open>None\<close>.\<close>

definition flatten_or_keep :: "ogr \<Rightarrow> geometry \<Rightarrow> geometry" where
  "flatten_or_keep ops geom =
     (case GetLinearGeometry ops geom of
        Inr (Some flat) \<Rightarrow> flat
      | Inr None \<Rightarrow> geom
      | Inl e \<Rightarrow> geom)"

text \<open>Lines 200 to 204: remove the children from the last index to the first, then
  add the linearized ones.\<close>

definition replace_subgeoms :: "geometry \<Rightarrow> geometry list \<Rightarrow> geometry" where
  "replace_subgeoms geom linearized_subs =
     fold (\<lambda>linear_sub g. AddGeometry g linear_sub) linearized_subs
       (fold (\<lambda>i g. RemoveGeometry g i) (rev [0..<GetGeometryCount geom]) geom)"

function (sequential)
    linearize_geometry :: "ogr \<Rightarrow> geometry option \<Rightarrow> real arg \<Rightarrow> error + geometry option"
and convert_multicurve_to_multilinestring :: "ogr \<Rightarrow> geometry \<Rightarrow> error + geometry"
and multicurve_loop :: "ogr \<Rightarrow> geometry \<Rightarrow> nat list \<Rightarrow> geometry \<Rightarrow> error + geometry"
and convert_multisurface_to_multipolygon :: "ogr \<Rightarrow> geometry \<Rightarrow> error + geometry"
and multisurface_loop :: "ogr \<Rightarrow> geometry \<Rightarrow> nat list \<Rightarrow> geometry \<Rightarrow> error + geometry"
and linearize_subs :: "ogr \<Rightarrow> geometry \<Rightarrow> nat list \<Rightarrow> geometry list \<Rightarrow> error + geometry list"
where
  "linearize_geometry ops geom Omitted = Inl TypeError"
| "linearize_geometry ops None (Supplied segmentize_tolerance) = Inr None"
| "linearize_geometry ops (Some geom0) (Supplied segmentize_tolerance) =
     (let geom1 = flatten_or_keep ops geom0 in
      case (if is_multicurve geom1 then convert_multicurve_to_multilinestring ops geom1
            else if is_multisurface geom1 then convert_multisurface_to_multipolygon ops geom1
            else Inr geom1) of
        Inl e \<Rightarrow> Inl e
      | Inr geom2 \<Rightarrow>
          if is_curve geom2 then
            (case segmentize ops geom2 segmentize_tolerance of
               Inl e \<Rightarrow> Inl e
             | Inr None \<Rightarrow> Inl AttributeError
             | Inr (Some geom3) \<Rightarrow>
                 (case linearize_subs ops geom3 [0..<GetGeometryCount geom3] [] of
                    Inl e \<Rightarrow> Inl e
                  | Inr linearized_subs \<Rightarrow>
                      GetLinearGeometry ops
                        (if linearized_subs \<noteq> [] then replace_subgeoms geom3 linearized_subs
                         else geom3)))
          else Inr (Some geom2))"
| "convert_multicurve_to_multilinestring ops geom =
     multicurve_loop ops geom [0..<GetGeometryCount geom] (ogr_Geometry wkbMultiLineString)"
| "multicurve_loop ops geom [] multiline = Inr multiline"
| "multicurve_loop ops geom (i # rest) multiline =
     (case linearize_geometry ops (GetGeometryRef geom i) Omitted of
        Inl e \<Rightarrow> Inl e
      | Inr None \<Rightarrow> multicurve_loop ops geom rest multiline
      | Inr (Some linestring) \<Rightarrow>
          multicurve_loop ops geom rest (AddGeometry multiline linestring))"
| "convert_multisurface_to_multipolygon ops geom =
     multisurface_loop ops geom [0..<GetGeometryCount geom] (ogr_Geometry wkbMultiPolygon)"
| "multisurface_loop ops geom [] multipoly = Inr multipoly"
| "multisurface_loop ops geom (i # rest) multipoly =
     (case linearize_geometry ops (GetGeometryRef geom i) Omitted of
        Inl e \<Rightarrow> Inl e
      | Inr None \<Rightarrow> multisurface_loop ops geom rest multipoly
      | Inr (Some polygon) \<Rightarrow>
          multisurface_loop ops geom rest (AddGeometry multipoly polygon))"
| "linearize_subs ops geom [] linearized_subs = Inr linearized_subs"
| "linearize_subs ops geom (i # rest) linearized_subs =
     (case GetGeometryRef geom i of
        None \<Rightarrow> linearize_subs ops geom rest linearized_subs
      | Some sub \<Rightarrow>
          (case linearize_geometry ops (Some sub) Omitted of
             Inl e \<Rightarrow> Inl e
           | Inr None \<Rightarrow> linearize_subs ops geom rest linearized_subs
           | Inr (Some linear_sub) \<Rightarrow>
               linearize_subs ops geom rest (linearized_subs @ [linear_sub])))"
  by pat_completeness auto

termination
  by (relation "inv_image (less_than <*lex*> less_than)
     (\<lambda>x. case x of
        Inl (Inl (ops, geom, a)) \<Rightarrow>
          (case a of Omitted \<Rightarrow> (0::nat, 0::nat) | Supplied t \<Rightarrow> (3, 0))
      | Inl (Inr (Inl (ops, geom))) \<Rightarrow> (2, 0)
      | Inl (Inr (Inr (ops, geom, idx, m))) \<Rightarrow> (1, length idx)
      | Inr (Inl (ops, geom)) \<Rightarrow> (2, 0)
      | Inr (Inr (Inl (ops, geom, idx, m))) \<Rightarrow> (1, length idx)
      | Inr (Inr (Inr (ops, geom, idx, m))) \<Rightarrow> (1, length idx))") auto

subsection \<open>Python floats\<close>

text \<open>
  A float is the real number it stands for, and an arithmetic operation returns the
  exact result rounded to the nearest double: 53 significant bits, ties to the even
  significand. The exponent is not bounded, so overflow, underflow and the special
  values are not modelled; for magnitudes between 2 to the power -1022 and 2 to the
  power 1023, where the values of lines 100 and 126 lie for counts and indices of 64
  bits, this is the arithmetic of IEEE 754.
\<close>

text \<open>The exponent \<open>e\<close> for which \<open>|x|\<close> is at least \<open>2 powi e\<close> and less than
  \<open>2 powi (e + 1)\<close>, for \<open>x\<close> other than 0.\<close>

definition float_exponent :: "real \<Rightarrow> int" where
  "float_exponent x =
     (if 1 \<le> \<bar>x\<bar> then bitlen \<lfloor>\<bar>x\<bar>\<rfloor> - 1
      else (let k = bitlen \<lfloor>1 / \<bar>x\<bar>\<rfloor> - 1
            in if \<bar>x\<bar> * 2 ^ nat k = 1 then - k else - k - 1))"

definition round_half_even :: "real \<Rightarrow> int" where
  "round_half_even y =
     (let f = \<lfloor>y\<rfloor>; d = y - of_int f
      in if d < 1 / 2 then f else if 1 / 2 < d then f + 1 else if even f then f else f + 1)"

text \<open>The distance between neighbouring doubles at \<open>x\<close>.\<close>

definition ulp :: "real \<Rightarrow> real" where
  "ulp x = 2 powi (float_exponent x - 52)"

definition fl :: "real \<Rightarrow> real" where
  "fl x = (if x = 0 then 0 else of_int (round_half_even (x / ulp x)) * ulp x)"

text \<open>
  \<^verbatim>\<open>float(k)\<close> of an integer, which the operators apply to an integer operand; the
  quotient \<^verbatim>\<open>a / b\<close>, which raises on a zero divisor; the product \<^verbatim>\<open>a * b\<close>; and
  \<^verbatim>\<open>int(x)\<close>, which truncates towards zero.
\<close>

definition py_float :: "int \<Rightarrow> real" where
  "py_float k = fl (of_int k)"

definition py_truediv :: "real \<Rightarrow> real \<Rightarrow> error + real" where
  "py_truediv a b = (if b = 0 then Inl ZeroDivisionError else Inr (fl (a / b)))"

definition py_mul :: "real \<Rightarrow> real \<Rightarrow> real" where
  "py_mul a b = fl (a * b)"

definition py_int :: "real \<Rightarrow> int" where
  "py_int x = (if 0 \<le> x then \<lfloor>x\<rfloor> else \<lceil>x\<rceil>)"

subsection \<open>GeometryLinearizer.processAlgorithm\<close>

text \<open>
  A feature carries its id and its \<^verbatim>\<open>QgsGeometry\<close>, which is the bytes that
  \<^verbatim>\<open>asWkb()\<close> returns, or \<open>None\<close> for the null geometry that is falsy at line 107. The
  source answers \<^verbatim>\<open>featureCount()\<close> and \<^verbatim>\<open>getFeatures()\<close> separately.
\<close>

type_synonym wkb = string

record feature =
  feature_id :: int
  feature_geometry :: "wkb option"

record source =
  featureCount :: int
  getFeatures :: "feature list"

text \<open>
  Decoding and encoding belong to the geometry library as well:
  \<^verbatim>\<open>ogr.CreateGeometryFromWkb\<close> may raise, return \<^verbatim>\<open>None\<close> or return a geometry, and
  \<^verbatim>\<open>ExportToWkb\<close> may raise or return bytes.
\<close>

record wkb_io =
  CreateGeometryFromWkb :: "wkb \<Rightarrow> error + geometry option"
  ExportToWkb :: "geometry \<Rightarrow> error + wkb"

text \<open>What a run leaves behind: the features added to the sink, the arguments of
  \<^verbatim>\<open>feedback.setProgress\<close> in order, and the ids of the features warned about.\<close>

record run =
  sink :: "feature list"
  progress :: "int list"
  warnings :: "int list"

text \<open>Line 100.\<close>

definition progress_total :: "source \<Rightarrow> error + real" where
  "progress_total src =
     (if featureCount src \<noteq> 0 then py_truediv 100 (py_float (featureCount src))
      else Inr 0)"

text \<open>The argument of line 126, \<^verbatim>\<open>int(current * total)\<close>, with \<open>scale\<close> for the
  variable \<^verbatim>\<open>total\<close>.\<close>

definition progress_value :: "real \<Rightarrow> nat \<Rightarrow> int" where
  "progress_value scale current = py_int (py_mul (py_float (int current)) scale)"

text \<open>
  Lines 106 to 120 for one feature: it has no geometry (line 108); an exception leaves
  the loop, that of the library or the \<^verbatim>\<open>AttributeError\<close> of \<^verbatim>\<open>Clone()\<close> on the
  \<^verbatim>\<open>None\<close> of a failed decoding (line 111); the linearization is \<^verbatim>\<open>None\<close> (line 113);
  or the bytes of the linear geometry are there to be written.
\<close>

datatype outcome = NoGeometry | Raised error | NotLinearized | Written wkb

definition process_feature :: "ogr \<Rightarrow> wkb_io \<Rightarrow> real \<Rightarrow> feature \<Rightarrow> outcome" where
  "process_feature ops io tolerance feat =
     (case feature_geometry feat of
        None \<Rightarrow> NoGeometry
      | Some geom \<Rightarrow>
          (case CreateGeometryFromWkb io geom of
             Inl e \<Rightarrow> Raised e
           | Inr None \<Rightarrow> Raised AttributeError
           | Inr (Some ogr_geom) \<Rightarrow>
               (case linearize_geometry ops (Some ogr_geom) (Supplied tolerance) of
                  Inl e \<Rightarrow> Raised e
                | Inr None \<Rightarrow> NotLinearized
                | Inr (Some linear_geom) \<Rightarrow>
                    (case ExportToWkb io linear_geom of
                       Inl e \<Rightarrow> Raised e
                     | Inr bytes \<Rightarrow> Written bytes))))"

text \<open>Lines 102 to 126; \<open>isCanceled current\<close> is the answer of
  \<^verbatim>\<open>feedback.isCanceled()\<close> at the iteration with index \<open>current\<close>.\<close>

fun feature_loop ::
  "ogr \<Rightarrow> wkb_io \<Rightarrow> real \<Rightarrow> real \<Rightarrow> (nat \<Rightarrow> bool) \<Rightarrow> nat \<Rightarrow> feature list \<Rightarrow> run
     \<Rightarrow> error + run"
where
  "feature_loop ops io tolerance scale isCanceled current [] out = Inr out"
| "feature_loop ops io tolerance scale isCanceled current (feat # rest) out =
     (if isCanceled current then Inr out
      else
        (case process_feature ops io tolerance feat of
           NoGeometry \<Rightarrow>
             feature_loop ops io tolerance scale isCanceled (Suc current) rest out
         | Raised e \<Rightarrow> Inl e
         | NotLinearized \<Rightarrow>
             feature_loop ops io tolerance scale isCanceled (Suc current) rest
               (out\<lparr>warnings := warnings out @ [feature_id feat]\<rparr>)
         | Written bytes \<Rightarrow>
             feature_loop ops io tolerance scale isCanceled (Suc current) rest
               (out\<lparr>sink := sink out @ [feat\<lparr>feature_geometry := Some bytes\<rparr>],
                    progress := progress out @ [progress_value scale current]\<rparr>)))"

text \<open>Lines 81 to 128; \<open>src\<close> and \<open>sink_created\<close> say whether
  \<^verbatim>\<open>parameterAsSource\<close> and \<^verbatim>\<open>parameterAsSink\<close> gave an object.\<close>

definition processAlgorithm ::
  "ogr \<Rightarrow> wkb_io \<Rightarrow> source option \<Rightarrow> bool \<Rightarrow> real \<Rightarrow> (nat \<Rightarrow> bool) \<Rightarrow> error + run"
where
  "processAlgorithm ops io src sink_created tolerance isCanceled =
     (case src of
        None \<Rightarrow> Inl QgsProcessingException
      | Some s \<Rightarrow>
          if \<not> sink_created then Inl QgsProcessingException
          else
            (case progress_total s of
               Inl e \<Rightarrow> Inl e
             | Inr scale \<Rightarrow>
                 feature_loop ops io tolerance scale isCanceled 0 (getFeatures s)
                   \<lparr>sink = [], progress = [], warnings = []\<rparr>))"

text \<open>A feature reaches line 126 when its bytes are written.\<close>

definition is_written :: "ogr \<Rightarrow> wkb_io \<Rightarrow> real \<Rightarrow> feature \<Rightarrow> bool" where
  "is_written ops io tolerance feat =
     (case process_feature ops io tolerance feat of
        Written bytes \<Rightarrow> True
      | NoGeometry \<Rightarrow> False
      | Raised e \<Rightarrow> False
      | NotLinearized \<Rightarrow> False)"

subsection \<open>Linear values\<close>

text \<open>A value is linear when neither it nor any value it contains is taken for a
  multi-curve, a multi-surface or a curve by the tests of the converter.\<close>

fun is_linear :: "geometry \<Rightarrow> bool" where
  "is_linear (Geometry t n c subs) =
     (\<not> is_multicurve (Geometry t n c subs) \<and>
      \<not> is_multisurface (Geometry t n c subs) \<and>
      \<not> is_curve (Geometry t n c subs) \<and>
      (\<forall>sub \<in> set subs. is_linear sub))"

text \<open>No type code of the curve kinds, in the value or in any value it contains.\<close>

fun no_curve_types :: "geometry \<Rightarrow> bool" where
  "no_curve_types (Geometry t n c subs) =
     (t \<notin> set curve_types \<and> (\<forall>sub \<in> set subs. no_curve_types sub))"


subsection \<open>Example values and operations\<close>

definition arc :: geometry where
  "arc = Geometry wkbCircularString ''CIRCULARSTRING'' [[0, 0], [1, 1], [2, 0]] []"

definition arc_chords :: geometry where
  "arc_chords = Geometry 2 ''LINESTRING'' [[0, 0], [1, 1], [2, 0]] []"

definition line_a :: geometry where
  "line_a = Geometry 2 ''LINESTRING'' [[0, 0], [1, 0]] []"

definition line_b :: geometry where
  "line_b = Geometry 2 ''LINESTRING'' [[1, 0], [1, 1]] []"

definition point_a :: geometry where
  "point_a = Geometry 1 ''POINT'' [[5, 5]] []"

definition arc_z :: geometry where
  "arc_z = Geometry wkbCircularStringZ ''CIRCULARSTRING'' [[0, 0, 7], [1, 1, 7], [2, 0, 7]] []"

definition arc_z_chords :: geometry where
  "arc_z_chords = Geometry 1002 ''LINESTRING'' [[0, 0, 7], [1, 1, 7], [2, 0, 7]] []"

definition multicurve_one_arc :: geometry where
  "multicurve_one_arc = Geometry wkbMultiCurve ''MULTICURVE'' [] [arc]"

definition multicurve_two_lines :: geometry where
  "multicurve_two_lines = Geometry wkbMultiCurve ''MULTICURVE'' [] [line_a, line_b]"

definition empty_multicurve_z :: geometry where
  "empty_multicurve_z = Geometry wkbMultiCurveZ ''MULTICURVE'' [] []"

definition collection_with_arc :: geometry where
  "collection_with_arc = Geometry 7 ''GEOMETRYCOLLECTION'' [] [point_a, arc]"

definition curvepolygon_one_ring :: geometry where
  "curvepolygon_one_ring =
     Geometry wkbCurvePolygon ''CURVEPOLYGON'' []
       [Geometry wkbCompoundCurve ''COMPOUNDCURVE'' [] [arc]]"

text \<open>
  Stand-ins for the library in the examples. Flattening succeeds on a linear value,
  which it returns, and raises on any other. Segmentizing a value without children
  joins its control points by chords, whatever the tolerance, and keeps the height
  flag; a value with children is returned as it is.
\<close>

definition chord_segmentize :: "geometry \<Rightarrow> geometry" where
  "chord_segmentize geom =
     (if subgeoms geom = []
      then Geometry (if Is3D geom then 1002 else 2) ''LINESTRING'' (coordinates geom) []
      else geom)"

definition chord_ops :: ogr where
  "chord_ops =
     \<lparr>GetLinearGeometry = (\<lambda>geom. if is_linear geom then Inr (Some geom) else Inl RuntimeError),
      segmentize = (\<lambda>geom tol. Inr (Some (chord_segmentize geom)))\<rparr>"

text \<open>The same operations, with a segmentize that answers at one tolerance only.\<close>

definition chord_ops_at :: "real \<Rightarrow> ogr" where
  "chord_ops_at t0 =
     \<lparr>GetLinearGeometry = (\<lambda>geom. if is_linear geom then Inr (Some geom) else Inl RuntimeError),
      segmentize = (\<lambda>geom tol. if tol = t0 then Inr (Some (chord_segmentize geom))
                                 else Inl RuntimeError)\<rparr>"





text \<open>A stand-in for the encoding: two byte strings, for \<open>line_a\<close> and \<open>line_b\<close>.\<close>

definition two_lines_io :: wkb_io where
  "two_lines_io =
     \<lparr>CreateGeometryFromWkb =
        (\<lambda>bytes. Inr (map_of [(''wkb of line a'', line_a), (''wkb of line b'', line_b)] bytes)),
      ExportToWkb =
        (\<lambda>geom. case map_of [(line_a, ''wkb of line a''), (line_b, ''wkb of line b'')] geom of
                   Some bytes \<Rightarrow> Inr bytes
                 | None \<Rightarrow> Inl RuntimeError)\<rparr>"

definition four_lines :: source where
  "four_lines =
     \<lparr>featureCount = 4,
      getFeatures =
        [\<lparr>feature_id = 1, feature_geometry = Some ''wkb of line a''\<rparr>,
         \<lparr>feature_id = 2, feature_geometry = Some ''wkb of line b''\<rparr>,
         \<lparr>feature_id = 3, feature_geometry = Some ''wkb of line a''\<rparr>,
         \<lparr>feature_id = 4, feature_geometry = Some ''wkb of line b''\<rparr>]\<rparr>"

definition three_of_four :: source where
  "three_of_four =
     \<lparr>featureCount = 4,
      getFeatures =
        [\<lparr>feature_id = 1, feature_geometry = Some ''wkb of line a''\<rparr>,
         \<lparr>feature_id = 2, feature_geometry = None\<rparr>,
         \<lparr>feature_id = 3, feature_geometry = Some ''wkb of line b''\<rparr>,
         \<lparr>feature_id = 4, feature_geometry = Some ''wkb of line a''\<rparr>]\<rparr>"

definition no_features :: source where
  "no_features = \<lparr>featureCount = 0, getFeatures = []\<rparr>"

definition never_canceled :: "nat \<Rightarrow> bool" where
  "never_canceled i = False"

text \<open>The percentage in the words of the specification: 100 times the number of
  processed records, over the total.\<close>

definition spec_progress :: "nat \<Rightarrow> int \<Rightarrow> real" where
  "spec_progress processed n = 100 * real processed / of_int n"

section \<open>Properties\<close>

subsection \<open>Constants and strings\<close>

lemmas wkb_defs =
  wkbMultiLineString_def wkbMultiPolygon_def wkbCircularString_def wkbCompoundCurve_def
  wkbCurvePolygon_def wkbMultiCurve_def wkbMultiSurface_def wkbCurve_def
  wkbCircularStringZ_def wkbCompoundCurveZ_def wkbCurvePolygonZ_def wkbMultiCurveZ_def
  wkbMultiSurfaceZ_def wkbCurveZ_def

subsection \<open>What the loops compute\<close>

lemma multicurve_loop_range:
  "multicurve_loop ops geom [0..<n] multiline =
     (if n = 0 then Inr multiline else Inl TypeError)"
  by (cases n) (simp_all add: upt_conv_Cons del: upt_Suc)

lemma multisurface_loop_range:
  "multisurface_loop ops geom [0..<n] multipoly =
     (if n = 0 then Inr multipoly else Inl TypeError)"
  by (cases n) (simp_all add: upt_conv_Cons del: upt_Suc)

lemma convert_multicurve_closed:
  "convert_multicurve_to_multilinestring ops geom =
     (if subgeoms geom = [] then Inr (ogr_Geometry wkbMultiLineString) else Inl TypeError)"
  by (simp add: multicurve_loop_range GetGeometryCount_def)

lemma convert_multisurface_closed:
  "convert_multisurface_to_multipolygon ops geom =
     (if subgeoms geom = [] then Inr (ogr_Geometry wkbMultiPolygon) else Inl TypeError)"
  by (simp add: multisurface_loop_range GetGeometryCount_def)

lemma linearize_subs_range:
  "linearize_subs ops geom [0..<GetGeometryCount geom] acc =
     (if subgeoms geom = [] then Inr acc else Inl TypeError)"
  by (cases "subgeoms geom")
     (simp_all add: GetGeometryCount_def GetGeometryRef_def upt_conv_Cons del: upt_Suc)

lemma fresh_container_not_curve:
  "\<not> is_curve (ogr_Geometry wkbMultiLineString)"
  "\<not> is_curve (ogr_Geometry wkbMultiPolygon)"
  by (simp_all add: is_curve_def ogr_Geometry_def curve_types_def wkb_defs upper_def
        upper_char_def)

subsection \<open>linearize\_geometry without recursion\<close>

text \<open>Every call the converter makes on a child omits the tolerance, so the whole
  function unfolds to a case distinction on the flattened value.\<close>

lemma linearize_geometry_closed:
  "linearize_geometry ops (Some geom) (Supplied t) =
     (let geom1 = flatten_or_keep ops geom in
      if is_multicurve geom1 \<or> is_multisurface geom1 then
        (if subgeoms geom1 = [] then
           Inr (Some (ogr_Geometry (if is_multicurve geom1 then wkbMultiLineString
                                    else wkbMultiPolygon)))
         else Inl TypeError)
      else if is_curve geom1 then
        (case segmentize ops geom1 t of
           Inl e \<Rightarrow> Inl e
         | Inr None \<Rightarrow> Inl AttributeError
         | Inr (Some geom3) \<Rightarrow>
             if subgeoms geom3 = [] then GetLinearGeometry ops geom3 else Inl TypeError)
      else Inr (Some geom1))"
proof -
  define geom1 where "geom1 = flatten_or_keep ops geom"
  consider (mc) "is_multicurve geom1"
    | (ms) "\<not> is_multicurve geom1" "is_multisurface geom1"
    | (other) "\<not> is_multicurve geom1" "\<not> is_multisurface geom1"
    by blast
  then have "linearize_geometry ops (Some geom) (Supplied t) =
     (if is_multicurve geom1 \<or> is_multisurface geom1 then
        (if subgeoms geom1 = [] then
           Inr (Some (ogr_Geometry (if is_multicurve geom1 then wkbMultiLineString
                                    else wkbMultiPolygon)))
         else Inl TypeError)
      else if is_curve geom1 then
        (case segmentize ops geom1 t of
           Inl e \<Rightarrow> Inl e
         | Inr None \<Rightarrow> Inl AttributeError
         | Inr (Some geom3) \<Rightarrow>
             if subgeoms geom3 = [] then GetLinearGeometry ops geom3 else Inl TypeError)
      else Inr (Some geom1))"
  proof cases
    case mc
    then show ?thesis
      by (simp add: geom1_def [symmetric] convert_multicurve_closed fresh_container_not_curve
            del: convert_multicurve_to_multilinestring.simps)
  next
    case ms
    then show ?thesis
      by (simp add: geom1_def [symmetric] convert_multisurface_closed
            fresh_container_not_curve
            del: convert_multisurface_to_multipolygon.simps)
  next
    case other
    then show ?thesis
      by (simp add: geom1_def [symmetric] linearize_subs_range
            split: sum.splits option.splits)
  qed
  then show ?thesis by (simp add: geom1_def Let_def)
qed

declare linearize_geometry.simps(3) [simp del]

subsection \<open>Facts about the examples\<close>

lemmas example_defs =
  arc_def arc_chords_def arc_z_def arc_z_chords_def line_a_def line_b_def point_a_def
  multicurve_one_arc_def multicurve_two_lines_def empty_multicurve_z_def
  collection_with_arc_def curvepolygon_one_ring_def

lemmas test_defs =
  is_multicurve_def is_multisurface_def is_curve_def curve_types_def wkb_defs upper_def
  upper_char_def

lemma chord_ops_simps:
  "GetLinearGeometry chord_ops geom =
     (if is_linear geom then Inr (Some geom) else Inl RuntimeError)"
  "segmentize chord_ops geom tol = Inr (Some (chord_segmentize geom))"
  by (simp_all add: chord_ops_def)

lemma is_linear_top:
  "is_linear geom \<Longrightarrow> \<not> is_multicurve geom \<and> \<not> is_multisurface geom \<and> \<not> is_curve geom"
  by (cases geom) simp


lemma chord_ops_flat_same: "GetLinearGeometry chord_ops x = Inr (Some y) \<Longrightarrow> y = x"
  by (auto simp: chord_ops_simps split: if_splits)

lemma chord_segmentize_Is3D: "Is3D (chord_segmentize x) = Is3D x"
  by (simp add: chord_segmentize_def Is3D_def wkbHasZ_def)

lemma multicurve_one_arc_facts:
  "\<not> is_linear multicurve_one_arc" "is_multicurve multicurve_one_arc"
  "subgeoms multicurve_one_arc \<noteq> []"
  by (simp_all add: example_defs test_defs)

lemma multicurve_two_lines_facts:
  "\<not> is_linear multicurve_two_lines" "is_multicurve multicurve_two_lines"
  "subgeoms multicurve_two_lines \<noteq> []"
  by (simp_all add: example_defs test_defs)

lemma curvepolygon_one_ring_facts:
  "\<not> is_linear curvepolygon_one_ring" "\<not> is_multicurve curvepolygon_one_ring"
  "\<not> is_multisurface curvepolygon_one_ring" "is_curve curvepolygon_one_ring"
  "subgeoms curvepolygon_one_ring \<noteq> []"
  by (simp_all add: example_defs test_defs)

lemma arc_facts:
  "\<not> is_linear arc" "\<not> is_multicurve arc" "\<not> is_multisurface arc" "is_curve arc"
  "is_linear arc_chords" "chord_segmentize arc = arc_chords"
  by (simp_all add: example_defs test_defs chord_segmentize_def Is3D_def wkbHasZ_def)

lemma arc_z_facts:
  "\<not> is_linear arc_z" "\<not> is_multicurve arc_z" "\<not> is_multisurface arc_z" "is_curve arc_z"
  "is_linear arc_z_chords" "chord_segmentize arc_z = arc_z_chords"
  "Is3D arc_z" "Is3D arc_z_chords"
  by (simp_all add: example_defs test_defs chord_segmentize_def Is3D_def wkbHasZ_def)


lemma empty_multicurve_z_facts:
  "\<not> is_linear empty_multicurve_z" "is_multicurve empty_multicurve_z"
  "Is3D empty_multicurve_z" "subgeoms empty_multicurve_z = []"
  by (simp_all add: example_defs test_defs Is3D_def wkbHasZ_def)

lemma fresh_container_planar:
  "\<not> Is3D (ogr_Geometry wkbMultiLineString)" "\<not> Is3D (ogr_Geometry wkbMultiPolygon)"
  by (simp_all add: Is3D_def wkbHasZ_def ogr_Geometry_def wkb_defs)


lemma fresh_container_tag:
  "GetGeometryType (ogr_Geometry wkbMultiLineString) \<notin> set curve_types"
  "GetGeometryType (ogr_Geometry wkbMultiPolygon) \<notin> set curve_types"
  using fresh_container_not_curve by (simp_all add: is_curve_def)

lemma arc_linearizes:
  "linearize_geometry chord_ops (Some arc) (Supplied t) = Inr (Some arc_chords)"
  by (simp add: linearize_geometry_closed flatten_or_keep_def chord_ops_simps arc_facts)
     (simp add: arc_chords_def)

lemma arc_z_linearizes:
  "linearize_geometry chord_ops (Some arc_z) (Supplied t) = Inr (Some arc_z_chords)"
  by (simp add: linearize_geometry_closed flatten_or_keep_def chord_ops_simps arc_z_facts)
     (simp add: arc_z_chords_def)

subsection \<open>Values the flatten operation returns unchanged\<close>

lemma linearize_linear:
  assumes "\<And>x. is_linear x \<Longrightarrow> GetLinearGeometry ops x = Inr (Some x)"
    and "is_linear r"
  shows "linearize_geometry ops (Some r) (Supplied t) = Inr (Some r)"
proof -
  have "flatten_or_keep ops r = r"
    using assms by (simp add: flatten_or_keep_def)
  with is_linear_top [OF assms(2)] show ?thesis
    by (simp add: linearize_geometry_closed)
qed

lemma line_linearizes:
  "linearize_geometry chord_ops (Some line_a) (Supplied t) = Inr (Some line_a)"
  "linearize_geometry chord_ops (Some line_b) (Supplied t) = Inr (Some line_b)"
  by (rule linearize_linear; simp add: chord_ops_simps line_a_def line_b_def test_defs)+

lemma flatten_or_keep_Is3D:
  assumes "\<And>x y. GetLinearGeometry ops x = Inr (Some y) \<Longrightarrow> Is3D y = Is3D x"
  shows "Is3D (flatten_or_keep ops g) = Is3D g"
  using assms by (auto simp: flatten_or_keep_def split: sum.splits option.splits)

subsection \<open>Rounding to a double\<close>

lemma floor_bitlen_bracket:
  fixes y :: real
  assumes "1 \<le> y"
  defines "k \<equiv> bitlen \<lfloor>y\<rfloor> - 1"
  shows "0 \<le> k" "2 ^ nat k \<le> y" "y < 2 ^ nat (k + 1)"
proof -
  have m: "0 < \<lfloor>y\<rfloor>" using assms(1) by simp
  from bitlen_bounds [OF m] have lo: "2 ^ nat k \<le> \<lfloor>y\<rfloor>" and hi: "\<lfloor>y\<rfloor> < 2 ^ nat (k + 1)"
    by (simp_all add: k_def)
  from m have "bitlen \<lfloor>y\<rfloor> \<noteq> 0" by (simp add: bitlen_eq_zero_iff)
  with bitlen_nonneg [of "\<lfloor>y\<rfloor>"] show "0 \<le> k" by (simp add: k_def)
  have "(2::real) ^ nat k = of_int (2 ^ nat k)" by simp
  also have "\<dots> \<le> of_int \<lfloor>y\<rfloor>" using lo by (simp only: of_int_le_iff)
  also have "\<dots> \<le> y" by simp
  finally show "2 ^ nat k \<le> y" .
  from hi have "\<lfloor>y\<rfloor> + 1 \<le> 2 ^ nat (k + 1)" by simp
  then have "of_int (\<lfloor>y\<rfloor> + 1) \<le> (of_int (2 ^ nat (k + 1)) :: real)"
    by (simp only: of_int_le_iff)
  then have "of_int \<lfloor>y\<rfloor> + 1 \<le> (2::real) ^ nat (k + 1)" by simp
  moreover have "y < of_int \<lfloor>y\<rfloor> + 1" by linarith
  ultimately show "y < 2 ^ nat (k + 1)" by linarith
qed

lemma float_exponent_bracket:
  assumes "x \<noteq> 0"
  shows "2 powi float_exponent x \<le> \<bar>x\<bar>" "\<bar>x\<bar> < 2 powi (float_exponent x + 1)"
proof -
  define a where "a = \<bar>x\<bar>"
  have a: "0 < a" using assms by (simp add: a_def)
  have "2 powi float_exponent x \<le> a \<and> a < 2 powi (float_exponent x + 1)"
  proof (cases "1 \<le> a")
    case True
    define k where "k = bitlen \<lfloor>a\<rfloor> - 1"
    from floor_bitlen_bracket [OF True] have "0 \<le> k" "2 ^ nat k \<le> a" "a < 2 ^ nat (k + 1)"
      by (simp_all add: k_def)
    moreover have "float_exponent x = k"
      using True by (simp add: float_exponent_def a_def k_def)
    ultimately show ?thesis by (simp add: power_int_def)
  next
    case False
    define y where "y = 1 / a"
    define k where "k = bitlen \<lfloor>y\<rfloor> - 1"
    have y: "1 \<le> y" using False a by (simp add: y_def)
    from floor_bitlen_bracket [OF y]
    have k: "0 \<le> k" and lo: "2 ^ nat k \<le> y" and hi: "y < 2 ^ nat (k + 1)"
      by (simp_all add: k_def)
    have ay: "a = 1 / y" using a by (simp add: y_def)
    have up: "a * 2 ^ nat k \<le> 1"
      using lo a by (simp add: y_def field_simps)
    have down: "1 < a * 2 ^ nat (k + 1)"
      using hi a by (simp add: y_def field_simps)
    show ?thesis
    proof (cases "a * 2 ^ nat k = 1")
      case True
      then have e: "float_exponent x = - k"
        using False by (simp add: float_exponent_def a_def y_def k_def Let_def)
      have "(2::real) powi (- k) = 1 / 2 ^ nat k"
        using k by (simp add: power_int_minus power_int_nonneg_exp inverse_eq_divide)
      moreover have "a = 1 / 2 ^ nat k" using True by (simp add: field_simps)
      moreover have "(2::real) powi (- k + 1) = 2 * (1 / 2 ^ nat k)"
        using k by (simp add: power_int_diff power_int_nonneg_exp)
      ultimately show ?thesis using e by (simp add: divide_strict_right_mono)
    next
      case neq: False
      then have e: "float_exponent x = - k - 1"
        using False by (simp add: float_exponent_def a_def y_def k_def Let_def)
      have "- k - 1 = - (k + 1)" by simp
      then have p1: "(2::real) powi (- k - 1) = 1 / 2 ^ nat (k + 1)"
        using k by (simp only: power_int_minus inverse_eq_divide)
                   (simp add: power_int_nonneg_exp)
      have p2: "(2::real) powi (- k - 1 + 1) = 1 / 2 ^ nat k"
        using k by (simp add: power_int_minus power_int_nonneg_exp inverse_eq_divide)
      have "1 / 2 ^ nat (k + 1) \<le> a" using down by (simp add: field_simps)
      moreover have "a < 1 / 2 ^ nat k" using up neq by (simp add: field_simps)
      ultimately show ?thesis using e p1 p2 by simp
    qed
  qed
  then show "2 powi float_exponent x \<le> \<bar>x\<bar>" "\<bar>x\<bar> < 2 powi (float_exponent x + 1)"
    by (simp_all add: a_def)
qed

lemma round_half_even_error: "\<bar>of_int (round_half_even y) - y\<bar> \<le> 1 / 2"
proof -
  have "of_int \<lfloor>y\<rfloor> \<le> y" "y < of_int \<lfloor>y\<rfloor> + 1" by linarith+
  then show ?thesis
    by (auto simp: round_half_even_def Let_def)
qed

lemma round_half_even_of_int: "round_half_even (of_int z) = z"
  by (simp add: round_half_even_def)

lemma ulp_pos: "0 < ulp x"
  by (simp add: ulp_def)

lemma ulp_le: "x \<noteq> 0 \<Longrightarrow> ulp x \<le> \<bar>x\<bar> / 2 ^ 52"
proof -
  assume "x \<noteq> 0"
  then have "2 powi float_exponent x \<le> \<bar>x\<bar>" by (rule float_exponent_bracket)
  moreover have "ulp x = 2 powi float_exponent x / 2 ^ 52"
    by (simp add: ulp_def power_int_diff)
  ultimately show ?thesis by (simp add: field_simps)
qed

lemma fl_error: "\<bar>fl x - x\<bar> \<le> \<bar>x\<bar> / 2 ^ 53"
proof (cases "x = 0")
  case True
  then show ?thesis by (simp add: fl_def)
next
  case False
  define u where "u = ulp x"
  have u: "0 < u" by (simp add: u_def ulp_pos)
  have "\<bar>of_int (round_half_even (x / u)) - x / u\<bar> \<le> 1 / 2"
    by (rule round_half_even_error)
  then have "\<bar>of_int (round_half_even (x / u)) - x / u\<bar> * u \<le> 1 / 2 * u"
    using u by (simp only: mult_le_cancel_right_pos)
  moreover have "\<bar>of_int (round_half_even (x / u)) - x / u\<bar> * u =
      \<bar>of_int (round_half_even (x / u)) * u - x\<bar>"
  proof -
    have "(of_int (round_half_even (x / u)) - x / u) * u =
        of_int (round_half_even (x / u)) * u - x"
      using u by (simp add: left_diff_distrib)
    then have "\<bar>of_int (round_half_even (x / u)) * u - x\<bar> =
        \<bar>of_int (round_half_even (x / u)) - x / u\<bar> * \<bar>u\<bar>"
      by (simp only: abs_mult [symmetric])
    with u show ?thesis by simp
  qed
  ultimately have "\<bar>fl x - x\<bar> \<le> u / 2"
    using False by (simp add: fl_def u_def)
  also have "u / 2 \<le> \<bar>x\<bar> / 2 ^ 52 / 2"
    using ulp_le [OF False] by (simp add: u_def)
  finally show ?thesis by simp
qed

lemma fl_of_int:
  assumes "\<bar>z\<bar> < 2 ^ 53"
  shows "fl (of_int z) = of_int z"
proof (cases "z = 0")
  case True
  then show ?thesis by (simp add: fl_def)
next
  case False
  define e where "e = float_exponent (of_int z)"
  have nz: "(of_int z :: real) \<noteq> 0" using False by simp
  have "2 powi e \<le> \<bar>of_int z :: real\<bar>"
    unfolding e_def using nz by (rule float_exponent_bracket)
  also have "\<bar>of_int z :: real\<bar> < 2 powi 53"
  proof -
    have "(of_int \<bar>z\<bar> :: real) < of_int (2 ^ 53)" using assms by (simp only: of_int_less_iff)
    then show ?thesis by simp
  qed
  finally have lt: "(2::real) powi e < 2 powi 53" .
  have e: "e < 53"
  proof (rule ccontr)
    assume "\<not> e < 53"
    then have "(2::real) powi 53 \<le> 2 powi e"
      by (intro power_int_increasing) simp_all
    with lt show False by simp
  qed
  define d where "d = nat (52 - e)"
  have u: "ulp (of_int z) = 1 / 2 ^ d"
    using e by (simp add: ulp_def e_def [symmetric] d_def power_int_def field_simps)
  have "of_int z / ulp (of_int z) = (of_int (z * 2 ^ d) :: real)"
    by (simp add: u)
  then have "round_half_even (of_int z / ulp (of_int z)) = z * 2 ^ d"
    by (simp only: round_half_even_of_int)
  then show ?thesis
    using nz by (simp add: fl_def u)
qed


lemma fl_nonneg: "0 \<le> x \<Longrightarrow> 0 \<le> fl x"
proof -
  assume x: "0 \<le> x"
  have "\<bar>fl x - x\<bar> \<le> \<bar>x\<bar> / 2 ^ 53" by (rule fl_error)
  with x have "x - x / 2 ^ 53 \<le> fl x" by linarith
  moreover have "x / 2 ^ 53 \<le> x" using x by (simp add: field_simps)
  ultimately show ?thesis using x by linarith
qed

lemma progress_product_error:
  assumes n: "0 < n" "n \<le> 2 ^ 40" and i: "int i \<le> n"
  defines "E \<equiv> 100 * real i / of_int n"
  defines "p \<equiv> fl (fl (of_int (int i)) * fl (100 / fl (of_int n)))"
  shows "0 \<le> p" "\<bar>p - E\<bar> < 1 / 2 ^ 44"
proof -
  define u :: real where "u = 1 / 2 ^ 53"
  define t where "t = fl (100 / of_int n)"
  have u: "0 < u" "u < 1" by (simp_all add: u_def)
  have nr: "(0::real) < of_int n" using n by simp
  have "\<bar>n\<bar> < 2 ^ 53" using n by simp
  then have fn: "fl (of_int n) = of_int n" by (rule fl_of_int)
  have "\<bar>int i\<bar> < 2 ^ 53" using n i by simp
  then have "fl (of_int (int i)) = of_int (int i)" by (rule fl_of_int)
  then have fi: "fl (of_int (int i)) = real i" by simp
  have p: "p = fl (real i * t)" by (simp only: p_def t_def fn fi)
  have E: "0 \<le> E" "E \<le> 100"
    using nr i by (simp_all add: E_def field_simps)
  have "\<bar>t - 100 / of_int n\<bar> \<le> \<bar>100 / of_int n\<bar> / 2 ^ 53"
    unfolding t_def by (rule fl_error)
  then have terr: "\<bar>t - 100 / of_int n\<bar> \<le> 100 / of_int n * u"
    using nr by (simp add: u_def)
  have "real i * \<bar>t - 100 / of_int n\<bar> \<le> real i * (100 / of_int n * u)"
    using terr by (rule mult_left_mono) simp
  moreover have "real i * \<bar>t - 100 / of_int n\<bar> = \<bar>real i * t - E\<bar>"
  proof -
    have "real i * (t - 100 / of_int n) = real i * t - E"
      by (simp add: E_def right_diff_distrib)
    then have "\<bar>real i * t - E\<bar> = \<bar>real i\<bar> * \<bar>t - 100 / of_int n\<bar>"
      by (simp only: abs_mult [symmetric])
    then show ?thesis by simp
  qed
  moreover have "real i * (100 / of_int n * u) = E * u"
    by (simp add: E_def)
  ultimately have e1: "\<bar>real i * t - E\<bar> \<le> E * u" by simp
  have Eu: "E * u \<le> E" using E u by (simp add: mult_left_le)
  from e1 Eu E have it: "0 \<le> real i * t" "real i * t \<le> 2 * E" by linarith+
  show "0 \<le> p" unfolding p using it(1) by (rule fl_nonneg)
  have "\<bar>p - real i * t\<bar> \<le> \<bar>real i * t\<bar> / 2 ^ 53"
    unfolding p by (rule fl_error)
  then have "\<bar>p - real i * t\<bar> \<le> real i * t * u"
    using it(1) by (simp add: u_def)
  also have "real i * t * u \<le> 2 * E * u"
    using it(2) u by (simp add: mult_right_mono)
  finally have e2: "\<bar>p - real i * t\<bar> \<le> 2 * E * u" .
  have "E * u \<le> 100 * u" using E u by (simp add: mult_right_mono)
  with e1 e2 have "\<bar>p - E\<bar> \<le> 300 * u" by linarith
  also have "300 * u < 1 / 2 ^ 44" by (simp add: u_def)
  finally show "\<bar>p - E\<bar> < 1 / 2 ^ 44" .
qed

lemma progress_value_bounds:
  assumes n: "0 < n" "n \<le> 2 ^ 40" and i: "int i \<le> n"
  shows "(100 * int i) div n - 1 \<le> progress_value (fl (100 / fl (of_int n))) i"
    and "progress_value (fl (100 / fl (of_int n))) i \<le> (100 * int i) div n"
    and "\<not> n dvd 100 * int i \<Longrightarrow>
         progress_value (fl (100 / fl (of_int n))) i = (100 * int i) div n"
proof -
  define E where "E = 100 * real i / of_int n"
  define p where "p = fl (fl (of_int (int i)) * fl (100 / fl (of_int n)))"
  define q where "q = (100 * int i) div n"
  define r where "r = (100 * int i) mod n"
  from progress_product_error [OF n i]
  have p0: "0 \<le> p" and err: "\<bar>p - E\<bar> < 1 / 2 ^ 44"
    by (simp_all add: p_def E_def)
  have v: "progress_value (fl (100 / fl (of_int n))) i = \<lfloor>p\<rfloor>"
    using p0 by (simp only: progress_value_def py_int_def py_mul_def py_float_def p_def if_True)
  have nr: "(0::real) < of_int n" using n by simp
  have r: "0 \<le> r" "r < n" using n by (simp_all add: r_def)
  have "100 * int i = q * n + r" by (simp add: q_def r_def)
  then have "real_of_int (100 * int i) = real_of_int (q * n + r)" by simp
  then have Eq: "E = of_int q + of_int r / of_int n"
    using nr by (simp add: E_def field_simps)
  have small: "(1::real) / 2 ^ 44 < 1" by simp
  have rn: "0 \<le> real_of_int r / of_int n" "real_of_int r / of_int n < 1"
    using r nr by simp_all
  from err Eq rn small have lo: "of_int q - 1 < p" and hi: "p < of_int q + 2" by linarith+
  have hi1: "p < of_int q + 1"
  proof (cases "r = 0")
    case True
    with Eq have "E = of_int q" by simp
    with err small show ?thesis by linarith
  next
    case False
    with r have "r + 1 \<le> n" by simp
    then have "real_of_int (r + 1) \<le> real_of_int n" by (simp only: of_int_le_iff)
    then have "real_of_int r / of_int n \<le> 1 - 1 / of_int n"
      using nr by (simp add: field_simps)
    moreover have "(1::real) / 2 ^ 40 \<le> 1 / of_int n"
    proof -
      have "real_of_int n \<le> real_of_int (2 ^ 40)" using n(2) by (simp only: of_int_le_iff)
      then show ?thesis using nr by (simp add: field_simps)
    qed
    moreover have "(1::real) / 2 ^ 44 < 1 / 2 ^ 40" by simp
    ultimately show ?thesis using err Eq by linarith
  qed
  from lo have "of_int (q - 1) \<le> p" by simp
  then have "q - 1 \<le> \<lfloor>p\<rfloor>" by (simp only: le_floor_iff)
  then show "(100 * int i) div n - 1 \<le> progress_value (fl (100 / fl (of_int n))) i"
    by (simp add: v q_def)
  from hi1 have "p < of_int (q + 1)" by simp
  then have "\<lfloor>p\<rfloor> < q + 1" by (simp only: floor_less_iff)
  then show "progress_value (fl (100 / fl (of_int n))) i \<le> (100 * int i) div n"
    by (simp add: v q_def)
  show "progress_value (fl (100 / fl (of_int n))) i = (100 * int i) div n"
    if "\<not> n dvd 100 * int i"
  proof -
    from that have "r \<noteq> 0" by (simp add: r_def dvd_eq_mod_eq_0)
    with r have "1 \<le> r" by simp
    then have "real_of_int 1 \<le> real_of_int r" by (simp only: of_int_le_iff)
    then have "1 / of_int n \<le> real_of_int r / of_int n"
      using nr by (simp add: field_simps)
    moreover have "(1::real) / 2 ^ 40 \<le> 1 / of_int n"
    proof -
      have "real_of_int n \<le> real_of_int (2 ^ 40)" using n(2) by (simp only: of_int_le_iff)
      then show ?thesis using nr by (simp add: field_simps)
    qed
    moreover have "(1::real) / 2 ^ 44 < 1 / 2 ^ 40" by simp
    ultimately have "of_int q \<le> p" using err Eq by linarith
    with hi1 have "\<lfloor>p\<rfloor> = q" by (intro floor_unique) simp_all
    then show ?thesis by (simp add: v q_def)
  qed
qed

text \<open>The report that is one less than the exact quotient: 194 features, index 97.\<close>

lemma progress_value_194_97:
  "progress_total \<lparr>featureCount = 194, getFeatures = []\<rparr> = Inr (fl (100 / 194)) \<and>
   progress_value (fl (100 / 194)) 97 = 49 \<and> (100 * 97) div 194 = (50::int)"
  by (simp add: progress_total_def py_truediv_def py_float_def progress_value_def py_mul_def
        fl_def ulp_def float_exponent_def round_half_even_def py_int_def compute_bitlen
        Let_def)

subsection \<open>The feature loop\<close>

lemma feature_loop_reports:
  assumes "\<forall>f \<in> set fs. \<forall>e. process_feature ops io tol f \<noteq> Raised e"
    and "\<forall>i. current \<le> i \<and> i < current + length fs \<longrightarrow> \<not> isCanceled i"
  shows "\<exists>out'. feature_loop ops io tol scale isCanceled current fs out = Inr out' \<and>
           progress out' =
             progress out @
             map (\<lambda>(i, f). progress_value scale i)
               (filter (\<lambda>(i, f). is_written ops io tol f) (List.enumerate current fs))"
  using assms
proof (induction fs arbitrary: current out)
  case Nil
  then show ?case by simp
next
  case (Cons f fs)
  from Cons.prems(2) have nc: "\<not> isCanceled current" by simp
  have rest: "\<forall>i. Suc current \<le> i \<and> i < Suc current + length fs \<longrightarrow> \<not> isCanceled i"
    using Cons.prems(2) by simp
  have tl: "\<forall>f \<in> set fs. \<forall>e. process_feature ops io tol f \<noteq> Raised e"
    using Cons.prems(1) by simp
  note IH = Cons.IH [OF tl rest]
  show ?case
  proof (cases "process_feature ops io tol f")
    case NoGeometry
    with IH [of out] nc show ?thesis by (simp add: is_written_def)
  next
    case (Raised e)
    with Cons.prems(1) show ?thesis by simp
  next
    case NotLinearized
    with IH [of "out\<lparr>warnings := warnings out @ [feature_id f]\<rparr>"] nc
    show ?thesis by (simp add: is_written_def)
  next
    case (Written bytes)
    with IH [of "out\<lparr>sink := sink out @ [f\<lparr>feature_geometry := Some bytes\<rparr>],
                progress := progress out @ [progress_value scale current]\<rparr>"] nc
    show ?thesis by (simp add: is_written_def)
  qed
qed

subsection \<open>Values without curve types\<close>


lemma no_curve_types_top: "no_curve_types g \<Longrightarrow> GetGeometryType g \<notin> set curve_types"
  by (cases g) simp




subsection \<open>The example runs\<close>

lemmas float_defs =
  py_truediv_def py_float_def py_mul_def py_int_def fl_def ulp_def float_exponent_def
  round_half_even_def compute_bitlen Let_def

lemma scale_of_four:
  "py_truediv 100 (py_float 4) = Inr 25"
  "progress_value 25 0 = 0" "progress_value 25 (Suc 0) = 25"
  "progress_value 25 (Suc (Suc 0)) = 50" "progress_value 25 (Suc (Suc (Suc 0))) = 75"
  by (simp_all add: progress_value_def float_defs)

lemma two_lines_io_features:
  "process_feature chord_ops two_lines_io t \<lparr>feature_id = k, feature_geometry = None\<rparr> =
     NoGeometry"
  "process_feature chord_ops two_lines_io t
     \<lparr>feature_id = k, feature_geometry = Some ''wkb of line a''\<rparr> = Written ''wkb of line a''"
  "process_feature chord_ops two_lines_io t
     \<lparr>feature_id = k, feature_geometry = Some ''wkb of line b''\<rparr> = Written ''wkb of line b''"
  by (simp_all add: process_feature_def two_lines_io_def line_linearizes)
     (simp_all add: line_a_def line_b_def)

section \<open>The claims\<close>

subsection \<open>C1: exceptions leaving linearize\_geometry\<close>

text \<open>
  Claim C1 says that no exception leaves \<^verbatim>\<open>linearize_geometry\<close> and that the calls on
  the children complete without raising. Each of these calls passes the child alone
  (lines 137, 147 and 195) to a function of two required parameters, so it raises
  \<^verbatim>\<open>TypeError\<close>, outside the only handler (lines 173 to 176). Evaluated where the
  flatten operation fails for the value: a multi-curve with one arc, and a curve polygon
  whose ring survives segmentize, both end in \<^verbatim>\<open>TypeError\<close>.
\<close>

theorem child_call_raises_TypeError:
  "linearize_geometry chord_ops (Some multicurve_one_arc) (Supplied 3) = Inl TypeError \<and>
   linearize_geometry chord_ops (Some curvepolygon_one_ring) (Supplied 3) = Inl TypeError"
  by (simp add: linearize_geometry_closed flatten_or_keep_def chord_ops_simps
        multicurve_one_arc_facts curvepolygon_one_ring_facts chord_segmentize_def)

subsection \<open>C2: the tolerance of the calls on children\<close>

text \<open>
  Against claim C2 as stated: the call on the child of \<open>multicurve_one_arc\<close>, written
  without a tolerance, does not linearize the child with some default; it raises. The
  same child with a tolerance supplied, here the 3.0 that the user interface proposes,
  is linearized.
\<close>

theorem omitted_tolerance_is_not_defaulted:
  "GetGeometryRef multicurve_one_arc 0 = Some arc \<and>
   linearize_geometry chord_ops (Some arc) Omitted = Inl TypeError \<and>
   linearize_geometry chord_ops (Some arc) (Supplied 3) = Inr (Some arc_chords)"
  by (simp add: arc_linearizes GetGeometryRef_def multicurve_one_arc_def)

text \<open>
  Claim C2, amended: the calls on children omit the tolerance and no default stands in
  for it, so the only tolerance at which \<^verbatim>\<open>linearize_geometry(g, t)\<close> ever consults
  segmentize is the caller's \<open>t\<close>. Two libraries that flatten alike and segmentize alike
  at \<open>t\<close> give the same result, however they differ at every other tolerance.
\<close>

theorem only_supplied_tolerance_is_used:
  assumes "GetLinearGeometry ops' = GetLinearGeometry ops"
    and "\<And>x. segmentize ops' x t = segmentize ops x t"
  shows "linearize_geometry ops' geom (Supplied t) = linearize_geometry ops geom (Supplied t)"
proof (cases geom)
  case None
  then show ?thesis by simp
next
  case (Some g)
  have "flatten_or_keep ops' g = flatten_or_keep ops g"
    by (simp add: flatten_or_keep_def assms(1))
  then show ?thesis
    by (simp add: Some linearize_geometry_closed assms Let_def
          split: sum.splits option.splits)
qed

theorem only_supplied_tolerance_is_used_witness:
  "segmentize (chord_ops_at 3) arc 1 \<noteq> segmentize chord_ops arc 1 \<and>
   linearize_geometry (chord_ops_at 3) (Some arc) (Supplied 3) = Inr (Some arc_chords)"
proof -
  have a: "GetLinearGeometry (chord_ops_at 3) = GetLinearGeometry chord_ops"
    by (simp add: chord_ops_at_def chord_ops_def)
  have b: "\<And>x. segmentize (chord_ops_at 3) x 3 = segmentize chord_ops x 3"
    by (simp add: chord_ops_at_def chord_ops_def)
  have d: "segmentize (chord_ops_at 3) arc 1 \<noteq> segmentize chord_ops arc 1"
    by (simp add: chord_ops_at_def chord_ops_def)
  have "linearize_geometry (chord_ops_at 3) (Some arc) (Supplied 3) =
        linearize_geometry chord_ops (Some arc) (Supplied 3)"
    using a b by (rule only_supplied_tolerance_is_used)
  with d show ?thesis by (simp add: arc_linearizes)
qed

subsection \<open>C3: curves in the result\<close>




subsection \<open>C4: the height flag\<close>

text \<open>
  Against claim C4 as stated: an empty multi-curve with heights, for which the flatten
  operation fails, is re-typed into the container of line 134, which is created planar.
\<close>

theorem retyped_container_is_planar:
  "Is3D empty_multicurve_z \<and>
   linearize_geometry chord_ops (Some empty_multicurve_z) (Supplied 3) =
     Inr (Some (ogr_Geometry wkbMultiLineString)) \<and>
   \<not> Is3D (ogr_Geometry wkbMultiLineString)"
  by (simp add: linearize_geometry_closed flatten_or_keep_def chord_ops_simps
        empty_multicurve_z_facts fresh_container_planar)

text \<open>
  Claim C4, amended: when the flatten and segmentize operations keep the height flag,
  the result of \<^verbatim>\<open>linearize_geometry\<close> never gains a height; it has the height flag of
  the input whenever the value, after the first flatten attempt, is not re-typed; and
  the container that replaces a multi-curve or multi-surface is planar, whatever the
  input was.
\<close>

theorem height_flag_of_result:
  assumes flat: "\<And>x y. GetLinearGeometry ops x = Inr (Some y) \<Longrightarrow> Is3D y = Is3D x"
    and seg: "\<And>x y. segmentize ops x t = Inr (Some y) \<Longrightarrow> Is3D y = Is3D x"
    and res: "linearize_geometry ops (Some g) (Supplied t) = Inr (Some r)"
  shows "(Is3D r \<longrightarrow> Is3D g) \<and>
         (\<not> is_multicurve (flatten_or_keep ops g) \<and>
          \<not> is_multisurface (flatten_or_keep ops g) \<longrightarrow> Is3D r = Is3D g) \<and>
         (is_multicurve (flatten_or_keep ops g) \<or>
          is_multisurface (flatten_or_keep ops g) \<longrightarrow> \<not> Is3D r)"
proof -
  define g1 where "g1 = flatten_or_keep ops g"
  have g1: "Is3D g1 = Is3D g"
    unfolding g1_def using flat by (rule flatten_or_keep_Is3D)
  consider (retyped) "is_multicurve g1 \<or> is_multisurface g1"
    | (curve) "\<not> (is_multicurve g1 \<or> is_multisurface g1)" "is_curve g1"
    | (kept) "\<not> (is_multicurve g1 \<or> is_multisurface g1)" "\<not> is_curve g1"
    by blast
  then have "(Is3D r \<longrightarrow> Is3D g) \<and>
         (\<not> is_multicurve g1 \<and> \<not> is_multisurface g1 \<longrightarrow> Is3D r = Is3D g) \<and>
         (is_multicurve g1 \<or> is_multisurface g1 \<longrightarrow> \<not> Is3D r)"
  proof cases
    case retyped
    with res have "r = ogr_Geometry wkbMultiLineString \<or> r = ogr_Geometry wkbMultiPolygon"
      by (auto simp: linearize_geometry_closed g1_def [symmetric] split: if_splits)
    with fresh_container_planar have "\<not> Is3D r" by auto
    with retyped show ?thesis by blast
  next
    case curve
    with res obtain g3 where "segmentize ops g1 t = Inr (Some g3)"
        "GetLinearGeometry ops g3 = Inr (Some r)"
      by (auto simp: linearize_geometry_closed g1_def [symmetric]
            split: if_splits sum.splits option.splits)
    then have "Is3D r = Is3D g1" using flat seg by simp
    with g1 curve show ?thesis by blast
  next
    case kept
    with res have "r = g1"
      by (simp add: linearize_geometry_closed g1_def [symmetric])
    with g1 kept show ?thesis by blast
  qed
  then show ?thesis by (simp add: g1_def)
qed

theorem height_flag_of_result_witness:
  "linearize_geometry chord_ops (Some arc_z) (Supplied 3) = Inr (Some arc_z_chords) \<and>
   Is3D arc_z \<and> Is3D arc_z_chords"
proof -
  have keep: "flatten_or_keep chord_ops arc_z = arc_z"
    by (simp add: flatten_or_keep_def chord_ops_simps arc_z_facts)
  have "(Is3D arc_z_chords \<longrightarrow> Is3D arc_z) \<and>
        (\<not> is_multicurve (flatten_or_keep chord_ops arc_z) \<and>
         \<not> is_multisurface (flatten_or_keep chord_ops arc_z) \<longrightarrow>
           Is3D arc_z_chords = Is3D arc_z) \<and>
        (is_multicurve (flatten_or_keep chord_ops arc_z) \<or>
         is_multisurface (flatten_or_keep chord_ops arc_z) \<longrightarrow> \<not> Is3D arc_z_chords)"
  proof (rule height_flag_of_result [OF _ _ arc_z_linearizes])
    fix x y
    assume "GetLinearGeometry chord_ops x = Inr (Some y)"
    then have "y = x" by (rule chord_ops_flat_same)
    then show "Is3D y = Is3D x" by simp
  next
    fix x y
    assume "segmentize chord_ops x 3 = Inr (Some y)"
    then show "Is3D y = Is3D x" by (auto simp: chord_ops_simps chord_segmentize_Is3D)
  qed
  then have "Is3D arc_z_chords = Is3D arc_z"
    by (simp add: keep arc_z_facts)
  then show ?thesis by (simp add: arc_z_linearizes arc_z_facts)
qed

subsection \<open>C5: absence\<close>

text \<open>
  Claim C5: for every tolerance, \<^verbatim>\<open>linearize_geometry(None, t)\<close> returns \<^verbatim>\<open>None\<close>
  and raises nothing, whatever the library does.
\<close>

theorem linearize_geometry_None:
  "linearize_geometry ops None (Supplied t) = Inr None"
  by simp

subsection \<open>C6: re-typing a multi-curve\<close>

text \<open>
  Claim C6 says that the children of a multi-curve are linearized and appended to a
  new multi-linestring, and that the container is returned even when no child was
  converted. With one child, the call of line 137 raises before anything is appended,
  and \<^verbatim>\<open>convert_multicurve_to_multilinestring\<close> returns no container.
\<close>

theorem convert_multicurve_raises:
  "is_multicurve multicurve_one_arc \<and>
   GetGeometryCount multicurve_one_arc = 1 \<and>
   convert_multicurve_to_multilinestring chord_ops multicurve_one_arc = Inl TypeError"
  by (simp add: multicurve_one_arc_facts convert_multicurve_closed GetGeometryCount_def
        del: convert_multicurve_to_multilinestring.simps)
     (simp add: multicurve_one_arc_def)

subsection \<open>C7: idempotence\<close>




subsection \<open>C8: the number of children\<close>

text \<open>
  Claim C8 says that a multi-curve of N children gives a multi-linestring of at most N
  children, and of exactly N when every child converts. A multi-curve of two line
  strings, each of which converts when linearized on its own, gives no multi-linestring:
  the call on the first child raises.
\<close>

theorem two_children_give_no_multilinestring:
  "GetGeometryCount multicurve_two_lines = 2 \<and>
   linearize_geometry chord_ops (Some line_a) (Supplied 3) = Inr (Some line_a) \<and>
   linearize_geometry chord_ops (Some line_b) (Supplied 3) = Inr (Some line_b) \<and>
   linearize_geometry chord_ops (Some multicurve_two_lines) (Supplied 3) = Inl TypeError"
proof -
  have "linearize_geometry chord_ops (Some multicurve_two_lines) (Supplied 3) =
      Inl TypeError"
    by (simp add: linearize_geometry_closed flatten_or_keep_def chord_ops_simps
          multicurve_two_lines_facts)
  moreover have "GetGeometryCount multicurve_two_lines = 2"
    by (simp add: GetGeometryCount_def multicurve_two_lines_def)
  ultimately show ?thesis
    by (simp only: line_linearizes simp_thms)
qed

subsection \<open>C9: progress\<close>

text \<open>
  Against claim C9 as stated: with four features, all written, the progress reported
  after the second feature is 25, where the claim has \<open>100 \<times> 2 / 4 = 50\<close>; the reports
  of the run are 0, 25, 50 and 75.
\<close>

theorem progress_lags_one_feature:
  "processAlgorithm chord_ops two_lines_io (Some four_lines) True 3 never_canceled =
     Inr \<lparr>sink = getFeatures four_lines, progress = [0, 25, 50, 75], warnings = []\<rparr> \<and>
   spec_progress 2 (featureCount four_lines) = 50"
  by (simp add: processAlgorithm_def progress_total_def four_lines_def never_canceled_def
        scale_of_four two_lines_io_features spec_progress_def)

text \<open>
  Claim C9, amended: when the feature count is positive, at most \<open>2\<close> to the power 40
  and not less than the number of features, the run is not cancelled and nothing
  raises, the run completes, and the reports are those of the features that are
  written, in order: the feature at the zero-based position \<open>i\<close> reports
  \<^verbatim>\<open>int(i * (100.0 / count))\<close>, computed in double precision. That value is the
  quotient \<open>100 \<times> i\<close> over the count rounded down, or one less; it is the quotient rounded
  down whenever the count does not divide \<open>100 \<times> i\<close>. After the k-th feature the report
  is that of \<open>k - 1\<close> features; a skipped feature reports nothing.
\<close>

theorem progress_is_zero_based:
  assumes count: "0 < featureCount src" "featureCount src \<le> 2 ^ 40"
    and fits: "int (length (getFeatures src)) \<le> featureCount src"
    and quiet: "\<forall>f \<in> set (getFeatures src). \<forall>e. process_feature ops io tol f \<noteq> Raised e"
    and going: "\<forall>i < length (getFeatures src). \<not> isCanceled i"
  shows "\<exists>out scale.
           progress_total src = Inr scale \<and>
           processAlgorithm ops io (Some src) True tol isCanceled = Inr out \<and>
           progress out =
             map (\<lambda>(i, f). progress_value scale i)
               (filter (\<lambda>(i, f). is_written ops io tol f)
                  (List.enumerate 0 (getFeatures src))) \<and>
           (\<forall>i < length (getFeatures src).
              (100 * int i) div featureCount src - 1 \<le> progress_value scale i \<and>
              progress_value scale i \<le> (100 * int i) div featureCount src \<and>
              (\<not> featureCount src dvd 100 * int i \<longrightarrow>
                 progress_value scale i = (100 * int i) div featureCount src))"
proof -
  define scale where "scale = fl (100 / fl (of_int (featureCount src)))"
  have "\<bar>featureCount src\<bar> < 2 ^ 53" using count by simp
  then have "fl (of_int (featureCount src)) = of_int (featureCount src)"
    by (rule fl_of_int)
  then have "fl (of_int (featureCount src)) \<noteq> 0" using count by simp
  then have tot: "progress_total src = Inr scale"
    using count by (simp add: progress_total_def py_truediv_def py_float_def scale_def)
  from going have "\<forall>i. 0 \<le> i \<and> i < 0 + length (getFeatures src) \<longrightarrow> \<not> isCanceled i"
    by simp
  with quiet feature_loop_reports [of "getFeatures src" ops io tol 0 isCanceled scale
      "\<lparr>sink = [], progress = [], warnings = []\<rparr>"]
  obtain out where
    run: "feature_loop ops io tol scale isCanceled 0 (getFeatures src)
            \<lparr>sink = [], progress = [], warnings = []\<rparr> = Inr out"
    and reports: "progress out =
            map (\<lambda>(i, f). progress_value scale i)
              (filter (\<lambda>(i, f). is_written ops io tol f)
                 (List.enumerate 0 (getFeatures src)))"
    by auto
  from run tot have whole: "processAlgorithm ops io (Some src) True tol isCanceled = Inr out"
    by (simp add: processAlgorithm_def)
  have bounds: "(100 * int i) div featureCount src - 1 \<le> progress_value scale i \<and>
      progress_value scale i \<le> (100 * int i) div featureCount src \<and>
      (\<not> featureCount src dvd 100 * int i \<longrightarrow>
         progress_value scale i = (100 * int i) div featureCount src)"
    if "i < length (getFeatures src)" for i
  proof -
    from that fits have i: "int i \<le> featureCount src" by simp
    from progress_value_bounds [OF count i] show ?thesis
      by (simp add: scale_def)
  qed
  from tot whole reports bounds show ?thesis by blast
qed

theorem progress_is_zero_based_witness:
  "(case processAlgorithm chord_ops two_lines_io (Some three_of_four) True 3 never_canceled of
      Inl e \<Rightarrow> [] | Inr out \<Rightarrow> progress out) = [0, 50, 75]"
proof -
  have a: "0 < featureCount three_of_four" "featureCount three_of_four \<le> 2 ^ 40"
    by (simp_all add: three_of_four_def)
  have b: "int (length (getFeatures three_of_four)) \<le> featureCount three_of_four"
    by (simp add: three_of_four_def)
  have c: "\<forall>f \<in> set (getFeatures three_of_four).
             \<forall>e. process_feature chord_ops two_lines_io 3 f \<noteq> Raised e"
    by (simp add: three_of_four_def two_lines_io_features)
  have d: "\<forall>i < length (getFeatures three_of_four). \<not> never_canceled i"
    by (simp add: never_canceled_def)
  have t: "progress_total three_of_four = Inr 25"
    by (simp add: progress_total_def three_of_four_def scale_of_four)
  have e: "map (\<lambda>(i, f). progress_value 25 i)
             (filter (\<lambda>(i, f). is_written chord_ops two_lines_io 3 f)
                (List.enumerate 0 (getFeatures three_of_four))) = [0, 50, 75]"
    by (simp add: three_of_four_def is_written_def two_lines_io_features scale_of_four)
  from progress_is_zero_based [OF a b c d] t e show ?thesis by auto
qed

subsection \<open>C10: a source without features\<close>

text \<open>
  Claim C10: when the source reports zero features and yields none, the scale of line
  100 is 0, taken without dividing, and the run completes with nothing written.
\<close>

theorem no_features_no_division:
  assumes "featureCount src = 0" and "getFeatures src = []"
  shows "progress_total src = Inr 0 \<and>
         processAlgorithm ops io (Some src) True tol isCanceled =
           Inr \<lparr>sink = [], progress = [], warnings = []\<rparr>"
  using assms by (simp add: progress_total_def processAlgorithm_def)

theorem no_features_no_division_witness:
  "progress_total no_features = Inr 0 \<and>
   processAlgorithm chord_ops two_lines_io (Some no_features) True 3 never_canceled =
     Inr \<lparr>sink = [], progress = [], warnings = []\<rparr>"
proof -
  have a: "featureCount no_features = 0" by (simp add: no_features_def)
  have b: "getFeatures no_features = []" by (simp add: no_features_def)
  from no_features_no_division [OF a b] show ?thesis .
qed

end
